theory Spec2Isabelle
  imports Complex_Main "HOL-Library.Multiset" "HOL-Library.Sublist"
    "HOL-Library.Char_ord" "HOL-Library.List_Lexorder" "HOL-Library.Log_Nat"
begin

section \<open>Values of the data frame\<close>

text \<open>
  A cell of the \<^verbatim>\<open>risk_score\<close> column after \<^verbatim>\<open>pd.to_numeric\<close> is a Python float,
  an IEEE binary64. \<open>Fin x\<close> stands for the finite double nearest to the rational \<open>x\<close>:
  the double itself when \<open>x\<close> is one, and the double that Python reads from a literal
  such as \<^verbatim>\<open>0.6\<close> when \<open>x\<close> is the decimal. \<open>NZero\<close> is the negative zero, and the two
  infinities and not-a-number are values of their own.
\<close>

datatype pyfloat = Fin rat | NZero | PInf | NInf | NaN

text \<open>Python's \<^verbatim>\<open>a >= b\<close> and \<^verbatim>\<open>a < b\<close> on floats: every comparison with
  not-a-number is false, and the negative zero compares as zero. The finite values are
  compared by the rationals that stand for them: the scores of the file and the literals
  of the program by their decimals, which are in the order of their doubles (two decimals
  that round to one double apart, which the model tells apart and Python does not).\<close>

fun float_ge :: "pyfloat \<Rightarrow> pyfloat \<Rightarrow> bool" where
  "float_ge NaN b = False"
| "float_ge a NaN = False"
| "float_ge PInf b = True"
| "float_ge a NInf = True"
| "float_ge (Fin x) (Fin y) = (y \<le> x)"
| "float_ge (Fin x) NZero = (0 \<le> x)"
| "float_ge NZero (Fin y) = (y \<le> 0)"
| "float_ge NZero NZero = True"
| "float_ge (Fin x) PInf = False"
| "float_ge NZero PInf = False"
| "float_ge NInf b = False"

fun float_lt :: "pyfloat \<Rightarrow> pyfloat \<Rightarrow> bool" where
  "float_lt NaN b = False"
| "float_lt a NaN = False"
| "float_lt PInf b = False"
| "float_lt a NInf = False"
| "float_lt (Fin x) (Fin y) = (x < y)"
| "float_lt (Fin x) NZero = (x < 0)"
| "float_lt NZero (Fin y) = (0 < y)"
| "float_lt NZero NZero = False"
| "float_lt (Fin x) PInf = True"
| "float_lt NZero PInf = True"
| "float_lt NInf b = True"

subsection \<open>Rounding to binary64\<close>

text \<open>Rounding to the nearest integer, a tie to the even neighbour: the rule of IEEE
  arithmetic, of Python's \<^verbatim>\<open>round(x)\<close> and of \<^verbatim>\<open>f"{x:.1f}"\<close>.\<close>

definition round_half_even :: "rat \<Rightarrow> int" where
  "round_half_even x =
     (let f = \<lfloor>x\<rfloor>; d = x - of_int f in
      if d < 1 / 2 then f
      else if 1 / 2 < d then f + 1
      else if even f then f else f + 1)"

definition pow2 :: "int \<Rightarrow> rat" where
  "pow2 e = (if 0 \<le> e then 2 ^ nat e else 1 / 2 ^ nat (- e))"

text \<open>The exponent \<open>e\<close> with \<open>pow2 e \<le> a < pow2 (e + 1)\<close>, for \<open>a > 0\<close>.\<close>

definition binade :: "rat \<Rightarrow> int" where
  "binade a =
     (let e0 = bitlen (fst (quotient_of a)) - bitlen (snd (quotient_of a))
      in if a < pow2 e0 then e0 - 1 else e0)"

text \<open>
  The double nearest to a rational: 53 bits of significand, exponents from -1022 to
  1023, subnormal numbers in steps of \<open>pow2 (- 1074)\<close>, a tie to the even significand,
  overflow to an infinity and underflow to a zero of the same sign.
\<close>

definition to_double :: "rat \<Rightarrow> pyfloat" where
  "to_double x =
     (if x = 0 then Fin 0
      else
        let a = \<bar>x\<bar>;
            e = max (binade a) (- 1022);
            ulp = pow2 (e - 52);
            m = round_half_even (a / ulp)
        in if 1023 < e \<or> (e = 1023 \<and> 2 ^ 53 \<le> m) then (if x < 0 then NInf else PInf)
           else if m = 0 then (if x < 0 then NZero else Fin 0)
           else Fin ((if x < 0 then - 1 else 1) * of_int m * ulp))"

fun as_double :: "pyfloat \<Rightarrow> pyfloat" where
  "as_double (Fin x) = to_double x"
| "as_double a = a"

fun finite_value :: "pyfloat \<Rightarrow> rat" where
  "finite_value (Fin x) = x"
| "finite_value a = 0"

fun is_negative :: "pyfloat \<Rightarrow> bool" where
  "is_negative (Fin x) = (x < 0)"
| "is_negative NZero = True"
| "is_negative NInf = True"
| "is_negative a = False"

fun is_zero :: "pyfloat \<Rightarrow> bool" where
  "is_zero (Fin x) = (x = 0)"
| "is_zero NZero = True"
| "is_zero a = False"

fun is_inf :: "pyfloat \<Rightarrow> bool" where
  "is_inf PInf = True"
| "is_inf NInf = True"
| "is_inf a = False"

text \<open>Float addition, multiplication and division by a positive count, as far as the
  dashboard uses them: the exact result of the two doubles, rounded to a double.\<close>

fun add_doubles :: "pyfloat \<Rightarrow> pyfloat \<Rightarrow> pyfloat" where
  "add_doubles NaN b = NaN"
| "add_doubles a NaN = NaN"
| "add_doubles PInf NInf = NaN"
| "add_doubles NInf PInf = NaN"
| "add_doubles PInf b = PInf"
| "add_doubles a PInf = PInf"
| "add_doubles NInf b = NInf"
| "add_doubles a NInf = NInf"
| "add_doubles NZero NZero = NZero"
| "add_doubles a b =
     (let s = finite_value a + finite_value b in if s = 0 then Fin 0 else to_double s)"

definition float_add :: "pyfloat \<Rightarrow> pyfloat \<Rightarrow> pyfloat" where
  "float_add a b = add_doubles (as_double a) (as_double b)"

definition mul_doubles :: "pyfloat \<Rightarrow> pyfloat \<Rightarrow> pyfloat" where
  "mul_doubles a b =
     (if a = NaN \<or> b = NaN then NaN
      else if is_inf a \<or> is_inf b then
        (if is_zero a \<or> is_zero b then NaN
         else if is_negative a \<noteq> is_negative b then NInf else PInf)
      else
        let p = finite_value a * finite_value b in
        if p = 0 then (if is_negative a \<noteq> is_negative b then NZero else Fin 0)
        else to_double p)"

definition float_mul :: "pyfloat \<Rightarrow> pyfloat \<Rightarrow> pyfloat" where
  "float_mul a b = mul_doubles (as_double a) (as_double b)"

fun div_double :: "pyfloat \<Rightarrow> nat \<Rightarrow> pyfloat" where
  "div_double (Fin x) n = (if x = 0 then Fin 0 else to_double (x / of_nat n))"
| "div_double a n = a"

definition float_div_count :: "pyfloat \<Rightarrow> nat \<Rightarrow> pyfloat" where
  "float_div_count a n = div_double (as_double a) n"

text \<open>
  A cell as \<^verbatim>\<open>pd.read_csv\<close> hands it over: a number, or text that reads as a
  number (with the number); a boolean, which is what \<^verbatim>\<open>read_csv\<close> makes of the words
  \<^verbatim>\<open>True\<close> and \<^verbatim>\<open>False\<close> in a column that holds nothing else; or text that is no
  number. An empty cell is \<open>Numeric NaN\<close>.
\<close>

datatype cell = Numeric pyfloat | Boolean bool | Text string

datatype py_error = ReadError | ValueError | OverflowError

record csv_row =
  csv_city :: string
  csv_road_name :: string
  csv_risk_score :: cell
  csv_latitude :: cell
  csv_longitude :: cell

text \<open>A row of the loaded frame. \<open>idx\<close> is the row label of the frame's index
  (\<^verbatim>\<open>read_csv\<close> numbers the rows from 0); selections and sorts keep it. The city
  and the road name of a row are text: a file with an empty city cell, at which
  \<^verbatim>\<open>sorted\<close> fails on a frame that has cities of text as well, is outside the model.\<close>

record road =
  idx :: nat
  city :: string
  road_name :: string
  risk_score :: pyfloat
  latitude :: cell
  longitude :: cell
  risk_category :: string

section \<open>load_data\<close>

text \<open>\<^verbatim>\<open>pd.to_numeric(..., errors='coerce')\<close>: text that is no number becomes NaN. A
  boolean is kept; Python compares, multiplies and formats it as the number 1 or 0, and
  so it is that number in the model (only the Score column of the tabs, which prints such
  a cell as True or False, tells the two apart).\<close>

fun to_numeric :: "cell \<Rightarrow> pyfloat" where
  "to_numeric (Numeric x) = x"
| "to_numeric (Boolean b) = Fin (if b then 1 else 0)"
| "to_numeric (Text s) = NaN"

definition categorize_risk :: "pyfloat \<Rightarrow> string" where
  "categorize_risk score =
     (if float_ge score (Fin (6 / 10)) then ''High''
      else if float_ge score (Fin (3 / 10)) then ''Medium''
      else ''Low'')"

definition load_row :: "nat \<times> csv_row \<Rightarrow> road" where
  "load_row p =
     (let score = to_numeric (csv_risk_score (snd p)) in
      \<lparr> idx = fst p, city = csv_city (snd p), road_name = csv_road_name (snd p),
        risk_score = score, latitude = csv_latitude (snd p),
        longitude = csv_longitude (snd p), risk_category = categorize_risk score \<rparr>)"

text \<open>The argument is what \<^verbatim>\<open>pd.read_csv(path)\<close> gave: the rows of the file, or the
  exception of a file that cannot be read or lacks a column; the exception passes
  through \<open>load_data\<close>.\<close>

definition load_data :: "py_error + csv_row list \<Rightarrow> py_error + road list" where
  "load_data csv =
     (case csv of
        Inl e \<Rightarrow> Inl e
      | Inr rows \<Rightarrow> Inr (map load_row (zip [0..<length rows] rows)))"

section \<open>Formatting and rounding\<close>

text \<open>Python's \<^verbatim>\<open>round(x)\<close> of a float.\<close>

fun round_double :: "pyfloat \<Rightarrow> py_error + int" where
  "round_double (Fin x) = Inr (round_half_even x)"
| "round_double NZero = Inr 0"
| "round_double NaN = Inl ValueError"
| "round_double PInf = Inl OverflowError"
| "round_double NInf = Inl OverflowError"

definition py_round :: "pyfloat \<Rightarrow> py_error + int" where
  "py_round a = round_double (as_double a)"

definition digit_char :: "nat \<Rightarrow> char" where
  "digit_char d = ''0123456789'' ! (d mod 10)"

fun dec_digits :: "nat \<Rightarrow> string" where
  "dec_digits n =
     (if n < 10 then [digit_char n] else dec_digits (n div 10) @ [digit_char (n mod 10)])"

declare dec_digits.simps [simp del]

definition frac_digits :: "nat \<Rightarrow> nat \<Rightarrow> string" where
  "frac_digits p m = map (\<lambda>i. digit_char (m div 10 ^ (p - 1 - i))) [0..<p]"

text \<open>\<^verbatim>\<open>f"{x:.pf}"\<close>: fixed notation with \<open>p\<close> digits after the point, the exact
  value of the double rounded to them.\<close>

fun format_double :: "nat \<Rightarrow> pyfloat \<Rightarrow> string" where
  "format_double p (Fin x) =
     (let n = nat (round_half_even (\<bar>x\<bar> * 10 ^ p)) in
      (if x < 0 then ''-'' else []) @ dec_digits (n div 10 ^ p) @
      (if p = 0 then [] else ''.'' @ frac_digits p (n mod 10 ^ p)))"
| "format_double p NZero = ''-0'' @ (if p = 0 then [] else ''.'' @ frac_digits p 0)"
| "format_double p PInf = ''inf''"
| "format_double p NInf = ''-inf''"
| "format_double p NaN = ''nan''"

definition format_f :: "nat \<Rightarrow> pyfloat \<Rightarrow> string" where
  "format_f p a = format_double p (as_double a)"

text \<open>The two characters of the source's string literals outside ASCII, as their UTF-8
  bytes: the en dash (U+2013) and the non-breaking hyphen (U+2011).\<close>

definition en_dash :: string where
  "en_dash = [CHR 0xE2, CHR 0x80, CHR 0x93]"

definition nb_hyphen :: string where
  "nb_hyphen = [CHR 0xE2, CHR 0x80, CHR 0x91]"

section \<open>The page\<close>

text \<open>
  The calls into Streamlit, folium and matplotlib are recorded as the widgets they put
  on the page, each with the arguments the dashboard computed for it. The chart's counts
  are \<^verbatim>\<open>np.random.poisson(base, size=7)\<close> under the fixed seed 0 and its dates the last
  seven days: the widget records the title and \<open>base\<close>.
\<close>

datatype tcell = Txt string | Flt pyfloat

record marker =
  m_latitude :: pyfloat
  m_longitude :: pyfloat
  popup :: string
  color :: string
  fill_color :: string

datatype widget =
    PageConfig string string
  | Title string
  | Selectbox string "string list"
  | Subheader string
  | StFolium pyfloat pyfloat "marker list"
  | Info string
  | Table "string list" "(nat \<times> tcell list) list"
  | Pyplot string int
  | Write string
  | Tabs "(string \<times> widget list) list"

text \<open>The variables of \<^verbatim>\<open>main\<close> that outlive one section, and the page so far.\<close>

record env =
  data :: "road list"
  selected_city :: string
  city_data :: "road list"
  page :: "widget list"

section \<open>Selecting a city\<close>

text \<open>\<^verbatim>\<open>data[data['city'] == selected_city]\<close>\<close>

definition filter_by_city :: "road list \<Rightarrow> string \<Rightarrow> road list" where
  "filter_by_city ds c = filter (\<lambda>r. city r = c) ds"

section \<open>The map\<close>

fun astype_float :: "cell list \<Rightarrow> py_error + pyfloat list" where
  "astype_float [] = Inr []"
| "astype_float (Text s # cs) = Inl ValueError"
| "astype_float (Numeric x # cs) =
     (case astype_float cs of Inl e \<Rightarrow> Inl e | Inr xs \<Rightarrow> Inr (x # xs))"
| "astype_float (Boolean b # cs) =
     (case astype_float cs of
        Inl e \<Rightarrow> Inl e
      | Inr xs \<Rightarrow> Inr (Fin (if b then 1 else 0) # xs))"

text \<open>\<^verbatim>\<open>Series.mean()\<close> skips NaN; with nothing left the mean is NaN. The sum is
  taken from left to right, each addition rounded; the order in which numpy adds a long
  column can differ from it in the last bits.\<close>

definition series_mean :: "pyfloat list \<Rightarrow> pyfloat" where
  "series_mean xs =
     (let ys = filter (\<lambda>x. x \<noteq> NaN) xs in
      if ys = [] then NaN
      else float_div_count (foldl float_add (Fin 0) ys) (length ys))"

definition colour_map :: "string \<rightharpoonup> string" where
  "colour_map = [''High'' \<mapsto> ''red'', ''Medium'' \<mapsto> ''orange'', ''Low'' \<mapsto> ''green'']"

definition dict_get :: "('k \<rightharpoonup> 'v) \<Rightarrow> 'k \<Rightarrow> 'v \<Rightarrow> 'v" where
  "dict_get m k d = (case m k of Some v \<Rightarrow> v | None \<Rightarrow> d)"

definition marker_colour :: "road \<Rightarrow> string" where
  "marker_colour row = dict_get colour_map (risk_category row) ''blue''"

fun py_float :: "cell \<Rightarrow> py_error + pyfloat" where
  "py_float (Numeric x) = Inr x"
| "py_float (Boolean b) = Inr (Fin (if b then 1 else 0))"
| "py_float (Text s) = Inl ValueError"

text \<open>folium refuses a location with a NaN coordinate, of the map and of a marker.\<close>

definition validate_location :: "pyfloat \<Rightarrow> pyfloat \<Rightarrow> py_error + pyfloat \<times> pyfloat" where
  "validate_location la lo = (if la = NaN \<or> lo = NaN then Inl ValueError else Inr (la, lo))"

definition circle_marker :: "road \<Rightarrow> py_error + marker" where
  "circle_marker row =
     (case py_float (latitude row) of Inl e \<Rightarrow> Inl e | Inr la \<Rightarrow>
       (case py_float (longitude row) of Inl e \<Rightarrow> Inl e | Inr lo \<Rightarrow>
         (case validate_location la lo of Inl e \<Rightarrow> Inl e | Inr loc \<Rightarrow>
            Inr \<lparr> m_latitude = fst loc, m_longitude = snd loc,
                  popup = road_name row @ '' '' @ en_dash @ '' Risk Score: '' @
                          format_f 2 (risk_score row),
                  color = marker_colour row, fill_color = marker_colour row \<rparr>)))"

fun circle_markers :: "road list \<Rightarrow> py_error + marker list" where
  "circle_markers [] = Inr []"
| "circle_markers (row # rows) =
     (case circle_marker row of Inl e \<Rightarrow> Inl e | Inr m \<Rightarrow>
       (case circle_markers rows of Inl e \<Rightarrow> Inl e | Inr ms \<Rightarrow> Inr (m # ms)))"

definition map_section :: "env \<Rightarrow> py_error + env" where
  "map_section e =
     (if city_data e \<noteq> [] then
        (case astype_float (map latitude (city_data e)) of Inl err \<Rightarrow> Inl err | Inr lats \<Rightarrow>
          (case astype_float (map longitude (city_data e)) of Inl err \<Rightarrow> Inl err | Inr lons \<Rightarrow>
            (case validate_location (series_mean lats) (series_mean lons) of
               Inl err \<Rightarrow> Inl err
             | Inr centre \<Rightarrow>
                (case circle_markers (city_data e) of Inl err \<Rightarrow> Inl err | Inr ms \<Rightarrow>
                   Inr (e\<lparr>page := page e @
                      [Subheader (''Accident Risk Map of '' @ selected_city e),
                       StFolium (fst centre) (snd centre) ms]\<rparr>)))))
      else Inr (e\<lparr>page := page e @ [Info ''No data available for this city.'']\<rparr>))"

section \<open>The table of the top risky roads\<close>

text \<open>
  \<^verbatim>\<open>sort_values('risk_score', ascending=False)\<close> is pandas, not this program. Its
  documentation promises the rows of the frame in descending order of the key with NaN
  keys last; the order of rows with equal keys is left open by the default
  \<^verbatim>\<open>kind='quicksort'\<close>. The sort is therefore an argument \<open>srt\<close> of the model, and
  \<open>sort_values_desc srt\<close> is what pandas promises of it.
\<close>

fun desc_before :: "pyfloat \<Rightarrow> pyfloat \<Rightarrow> bool" where
  "desc_before a NaN = True"
| "desc_before NaN b = False"
| "desc_before a b = float_ge a b"

definition sort_values_desc :: "(road list \<Rightarrow> road list) \<Rightarrow> bool" where
  "sort_values_desc srt \<longleftrightarrow>
     (\<forall>rows. mset (srt rows) = mset rows \<and>
        sorted_wrt (\<lambda>a b. desc_before (risk_score a) (risk_score b)) (srt rows))"

text \<open>One sort that keeps the promise, by insertion from the right.\<close>

fun insert_desc :: "road \<Rightarrow> road list \<Rightarrow> road list" where
  "insert_desc r [] = [r]"
| "insert_desc r (x # xs) =
     (if desc_before (risk_score r) (risk_score x) then r # x # xs
      else x # insert_desc r xs)"

fun insertion_sort_desc :: "road list \<Rightarrow> road list" where
  "insertion_sort_desc [] = []"
| "insertion_sort_desc (r # rs) = insert_desc r (insertion_sort_desc rs)"

text \<open>\<^verbatim>\<open>city_data.sort_values('risk_score', ascending=False).head(10).copy()\<close>\<close>

definition top_n :: "(road list \<Rightarrow> road list) \<Rightarrow> road list \<Rightarrow> road list" where
  "top_n srt cd = take 10 (srt cd)"

record top_row = road +
  risk_percentage :: pyfloat

text \<open>\<^verbatim>\<open>top['risk_percentage'] = top['risk_score'] * 100\<close>: a new column of the copy.\<close>

definition add_risk_percentage :: "road \<Rightarrow> top_row" where
  "add_risk_percentage r =
     \<lparr> idx = idx r, city = city r, road_name = road_name r, risk_score = risk_score r,
       latitude = latitude r, longitude = longitude r, risk_category = risk_category r,
       risk_percentage = float_mul (risk_score r) (Fin 100) \<rparr>"

text \<open>The three columns of \<^verbatim>\<open>top_display\<close>, the percentage as \<^verbatim>\<open>f"{x:.1f}%"\<close>.\<close>

definition top_display_row :: "top_row \<Rightarrow> nat \<times> tcell list" where
  "top_display_row t =
     (idx t, [Txt (road_name t), Txt (format_f 1 (risk_percentage t) @ ''%''),
              Txt (risk_category t)])"

definition top_display :: "(road list \<Rightarrow> road list) \<Rightarrow> road list \<Rightarrow> widget" where
  "top_display srt cd =
     Table [''Road'', ''Risk (%)'', ''Category'']
       (map (top_display_row \<circ> add_risk_percentage) (top_n srt cd))"

definition table_widgets :: "(road list \<Rightarrow> road list) \<Rightarrow> road list \<Rightarrow> widget list" where
  "table_widgets srt cd = [Subheader ''Top Risky Roads'', top_display srt cd]"

definition table_section :: "(road list \<Rightarrow> road list) \<Rightarrow> env \<Rightarrow> env" where
  "table_section srt e = e\<lparr>page := page e @ table_widgets srt (city_data e)\<rparr>"

section \<open>The trend chart\<close>

text \<open>\<^verbatim>\<open>max(int(round(city_data['risk_score'].mean() * 10)), 1)\<close>\<close>

definition trend_base :: "road list \<Rightarrow> py_error + int" where
  "trend_base cd =
     (case py_round (float_mul (series_mean (map risk_score cd)) (Fin 10)) of
        Inl err \<Rightarrow> Inl err
      | Inr k \<Rightarrow> Inr (max k 1))"

definition chart_section :: "env \<Rightarrow> py_error + env" where
  "chart_section e =
     (if city_data e \<noteq> [] then
        (case trend_base (city_data e) of
           Inl err \<Rightarrow> Inl err
         | Inr base \<Rightarrow>
             Inr (e\<lparr>page := page e @
                [Subheader (''High'' @ nb_hyphen @ ''Risk Trend (Last 7 Days)''),
                 Pyplot (''High'' @ nb_hyphen @ ''Risk Trend in '' @ selected_city e) base]\<rparr>))
      else
        Inr (e\<lparr>page := page e @
           [Subheader (''High'' @ nb_hyphen @ ''Risk Trend (Last 7 Days)''),
            Write ''Insufficient data to display risk trend.'']\<rparr>))"

section \<open>The tabs of the three categories\<close>

text \<open>\<^verbatim>\<open>city_data[city_data['risk_category'] == cat]\<close>\<close>

definition category_rows :: "string \<Rightarrow> road list \<Rightarrow> road list" where
  "category_rows cat cd = filter (\<lambda>r. risk_category r = cat) cd"

text \<open>The selection of the two columns, renamed, as \<^verbatim>\<open>st.table\<close> gets it.\<close>

definition score_table :: "road list \<Rightarrow> widget" where
  "score_table rows =
     Table [''Road'', ''Score''] (map (\<lambda>r. (idx r, [Txt (road_name r), Flt (risk_score r)])) rows)"

definition category_tab :: "string \<Rightarrow> string \<Rightarrow> string \<Rightarrow> road list \<Rightarrow> string \<times> widget list" where
  "category_tab label cat caption cd =
     (label, [Write caption, score_table (category_rows cat cd)])"

definition tabs_widgets :: "road list \<Rightarrow> widget list" where
  "tabs_widgets cd =
     [Subheader ''Roads by Risk Category'',
      Tabs [category_tab ''High Risk'' ''High'' (''High'' @ nb_hyphen @ ''risk roads:'') cd,
            category_tab ''Medium Risk'' ''Medium'' (''Medium'' @ nb_hyphen @ ''risk roads:'') cd,
            category_tab ''Low Risk'' ''Low'' (''Low'' @ nb_hyphen @ ''risk roads:'') cd]]"

definition tabs_section :: "env \<Rightarrow> env" where
  "tabs_section e = e\<lparr>page := page e @ tabs_widgets (city_data e)\<rparr>"

section \<open>main\<close>

text \<open>
  \<open>csv\<close> is the result of \<^verbatim>\<open>pd.read_csv('roads_data.csv')\<close> and \<open>selected\<close> the
  value \<^verbatim>\<open>st.selectbox\<close> returned. For a frame without rows the selectbox has no
  option and returns \<^verbatim>\<open>None\<close>, which is the city of no row; in the model any
  string then selects no row as well. An exception ends the run: the result is the
  exception, or the variables and the page at the end.
\<close>

definition start_env :: "road list \<Rightarrow> string \<Rightarrow> env" where
  "start_env d selected =
     \<lparr> data = d, selected_city = selected, city_data = filter_by_city d selected,
       page = [PageConfig ''Traffic & Road Safety Dashboard'' ''wide'',
               Title ''Traffic & Road Safety Dashboard'',
               Selectbox ''Select City'' (sort (remdups (map city d)))] \<rparr>"

definition main :: "(road list \<Rightarrow> road list) \<Rightarrow> py_error + csv_row list \<Rightarrow> string \<Rightarrow> py_error + env" where
  "main srt csv selected =
     (case load_data csv of
        Inl err \<Rightarrow> Inl err
      | Inr d \<Rightarrow>
          (case map_section (start_env d selected) of
             Inl err \<Rightarrow> Inl err
           | Inr e1 \<Rightarrow>
               (case chart_section (table_section srt e1) of
                  Inl err \<Rightarrow> Inl err
                | Inr e3 \<Rightarrow> Inr (tabs_section e3))))"

section \<open>What a view shows of an empty selection\<close>

text \<open>
  The property asked of the widgets of a view when the selected city has no rows: a
  notice in words among them, and no table without rows.
\<close>

fun is_notice :: "widget \<Rightarrow> bool" where
  "is_notice (Info s) = True"
| "is_notice (Write s) = True"
| "is_notice w = False"

fun is_empty_table :: "widget \<Rightarrow> bool" where
  "is_empty_table (Table h rows) = (rows = [])"
| "is_empty_table w = False"

definition empty_state_notice :: "widget list \<Rightarrow> bool" where
  "empty_state_notice ws \<longleftrightarrow> list_ex is_notice ws \<and> \<not> list_ex is_empty_table ws"

section \<open>A sample file\<close>

text \<open>Five rows in two cities: one score that is no number, and two equal scores.\<close>

definition scenario_rows :: "csv_row list" where
  "scenario_rows =
     [\<lparr> csv_city = ''Lahore'', csv_road_name = ''Mall Road'',
        csv_risk_score = Numeric (Fin (75 / 100)),
        csv_latitude = Numeric (Fin (3156 / 100)), csv_longitude = Numeric (Fin (7435 / 100)) \<rparr>,
      \<lparr> csv_city = ''Lahore'', csv_road_name = ''Canal Road'',
        csv_risk_score = Text ''abc'',
        csv_latitude = Numeric (Fin (3152 / 100)), csv_longitude = Numeric (Fin (7434 / 100)) \<rparr>,
      \<lparr> csv_city = ''Karachi'', csv_road_name = ''Shahrah-e-Faisal'',
        csv_risk_score = Numeric (Fin (734 / 1000)),
        csv_latitude = Numeric (Fin (2486 / 100)), csv_longitude = Numeric (Fin (6706 / 100)) \<rparr>,
      \<lparr> csv_city = ''Lahore'', csv_road_name = ''Jail Road'',
        csv_risk_score = Numeric (Fin (5 / 10)),
        csv_latitude = Numeric (Fin (3154 / 100)), csv_longitude = Numeric (Fin (7433 / 100)) \<rparr>,
      \<lparr> csv_city = ''Lahore'', csv_road_name = ''Ferozepur Road'',
        csv_risk_score = Numeric (Fin (5 / 10)),
        csv_latitude = Numeric (Fin (3148 / 100)), csv_longitude = Numeric (Fin (7432 / 100)) \<rparr>]"

definition scenario_data :: "road list" where
  "scenario_data = map load_row (zip [0..<length scenario_rows] scenario_rows)"

definition lahore_data :: "road list" where
  "lahore_data = filter_by_city scenario_data ''Lahore''"

text \<open>A file whose score column holds the words True and False and nothing else:
  \<^verbatim>\<open>read_csv\<close> hands the cells over as booleans.\<close>

definition bool_rows :: "csv_row list" where
  "bool_rows =
     [\<lparr> csv_city = ''Lahore'', csv_road_name = ''Mall Road'',
        csv_risk_score = Boolean True,
        csv_latitude = Numeric (Fin (3156 / 100)), csv_longitude = Numeric (Fin (7435 / 100)) \<rparr>,
      \<lparr> csv_city = ''Lahore'', csv_road_name = ''Canal Road'',
        csv_risk_score = Boolean False,
        csv_latitude = Numeric (Fin (3152 / 100)), csv_longitude = Numeric (Fin (7434 / 100)) \<rparr>]"

definition bool_data :: "road list" where
  "bool_data = map load_row (zip [0..<length bool_rows] bool_rows)"

text \<open>Whether the text of a cell is a number: the words True and False are not.\<close>

fun reads_as_number :: "cell \<Rightarrow> bool" where
  "reads_as_number (Numeric x) = True"
| "reads_as_number (Boolean b) = False"
| "reads_as_number (Text s) = False"

text \<open>Twelve rows of one city, with the scores 0, 0.05, ..., 0.55.\<close>

definition long_data :: "road list" where
  "long_data =
     map (\<lambda>i. \<lparr> idx = i, city = ''Lahore'', road_name = ''Road'',
                 risk_score = Fin (of_nat i / 20),
                 latitude = Numeric (Fin (3156 / 100)), longitude = Numeric (Fin (7435 / 100)),
                 risk_category = categorize_risk (Fin (of_nat i / 20)) \<rparr>) [0..<12]"

section \<open>Facts about the floats and the sort\<close>

lemma desc_before_total: "\<not> desc_before a b \<Longrightarrow> desc_before b a"
  by (cases a; cases b) auto

lemma desc_before_trans: "desc_before a b \<Longrightarrow> desc_before b c \<Longrightarrow> desc_before a c"
  by (cases a; cases b; cases c) auto

lemma desc_before_not_lt: "desc_before a b \<Longrightarrow> \<not> float_lt a b"
  by (cases a; cases b) auto

lemma mset_insert_desc: "mset (insert_desc r xs) = add_mset r (mset xs)"
  by (induction xs) auto

lemma set_insert_desc: "set (insert_desc r xs) = insert r (set xs)"
  by (induction xs) auto

lemma sorted_insert_desc:
  "sorted_wrt (\<lambda>a b. desc_before (risk_score a) (risk_score b)) xs \<Longrightarrow>
   sorted_wrt (\<lambda>a b. desc_before (risk_score a) (risk_score b)) (insert_desc r xs)"
proof (induction xs)
  case Nil
  then show ?case by simp
next
  case (Cons x xs)
  show ?case
  proof (cases "desc_before (risk_score r) (risk_score x)")
    case True
    with Cons.prems show ?thesis
      by (auto intro: desc_before_trans)
  next
    case False
    then have "desc_before (risk_score x) (risk_score r)"
      by (rule desc_before_total)
    with False Cons show ?thesis
      by (auto simp: set_insert_desc)
  qed
qed

lemma mset_insertion_sort_desc: "mset (insertion_sort_desc xs) = mset xs"
  by (induction xs) (simp_all add: mset_insert_desc)

lemma sorted_insertion_sort_desc:
  "sorted_wrt (\<lambda>a b. desc_before (risk_score a) (risk_score b)) (insertion_sort_desc xs)"
  by (induction xs) (simp_all add: sorted_insert_desc)

lemma insertion_sort_desc_ok: "sort_values_desc insertion_sort_desc"
  by (simp add: sort_values_desc_def mset_insertion_sort_desc sorted_insertion_sort_desc)

lemma sort_values_desc_Nil: "sort_values_desc srt \<Longrightarrow> srt [] = []"
  by (metis sort_values_desc_def mset_zero_iff)

lemma sort_values_desc_length: "sort_values_desc srt \<Longrightarrow> length (srt xs) = length xs"
  by (metis sort_values_desc_def size_mset)

lemma sort_values_desc_sorted:
  "sort_values_desc srt \<Longrightarrow>
   sorted_wrt (\<lambda>a b. desc_before (risk_score a) (risk_score b)) (srt xs)"
  by (simp add: sort_values_desc_def)

lemma sorted_wrt_take: "sorted_wrt P xs \<Longrightarrow> sorted_wrt P (take n xs)"
  by (metis append_take_drop_id sorted_wrt_append)

lemma load_data_Inr: "load_data (Inr rows) = Inr (map load_row (zip [0..<length rows] rows))"
  by (simp add: load_data_def)

lemma load_row_simps:
  "idx (load_row p) = fst p" "city (load_row p) = csv_city (snd p)"
  "road_name (load_row p) = csv_road_name (snd p)"
  "risk_score (load_row p) = to_numeric (csv_risk_score (snd p))"
  "latitude (load_row p) = csv_latitude (snd p)"
  "longitude (load_row p) = csv_longitude (snd p)"
  "risk_category (load_row p) = categorize_risk (to_numeric (csv_risk_score (snd p)))"
  by (simp_all add: load_row_def Let_def)

lemma categorize_risk_cases:
  "categorize_risk s = ''High'' \<or> categorize_risk s = ''Medium'' \<or> categorize_risk s = ''Low''"
  by (simp add: categorize_risk_def)

lemma load_data_category:
  assumes "load_data csv = Inr d" "r \<in> set d"
  shows "risk_category r = categorize_risk (risk_score r)"
proof -
  from assms obtain rows where "csv = Inr rows" and d: "d = map load_row (zip [0..<length rows] rows)"
    by (cases csv) (auto simp: load_data_def)
  with assms(2) obtain p where "r = load_row p" by auto
  then show ?thesis by (simp add: load_row_simps)
qed

lemma load_data_idx:
  assumes "load_data csv = Inr d"
  shows "map idx d = [0..<length d]"
proof -
  from assms obtain rows where "csv = Inr rows" and d: "d = map load_row (zip [0..<length rows] rows)"
    by (cases csv) (auto simp: load_data_def)
  have "map idx d = map fst (zip [0..<length rows] rows)"
    by (simp add: d load_row_simps comp_def)
  also have "\<dots> = [0..<length rows]" by simp
  finally show ?thesis by (simp add: d)
qed

lemma load_data_distinct:
  assumes "load_data csv = Inr d"
  shows "distinct d"
proof -
  have "distinct (map idx d)" by (simp add: load_data_idx [OF assms])
  then show ?thesis by (simp add: distinct_map)
qed

lemma categorize_risk_in: "categorize_risk s \<in> {''High'', ''Medium'', ''Low''}"
  by (simp add: categorize_risk_def)

lemma top_n_Nil: "sort_values_desc srt \<Longrightarrow> top_n srt [] = []"
  by (simp add: top_n_def sort_values_desc_Nil)

lemma colour_of_category:
  "cat \<in> {''High'', ''Medium'', ''Low''} \<Longrightarrow>
   dict_get colour_map cat ''blue'' \<in> {''red'', ''orange'', ''green''}"
  by (auto simp: dict_get_def colour_map_def)

lemma scenario_loaded: "load_data (Inr scenario_rows) = Inr scenario_data"
  by (simp add: load_data_Inr scenario_data_def)

lemma sorted_after_rev: "sort_values_desc (insertion_sort_desc \<circ> rev)"
  by (simp add: sort_values_desc_def mset_insertion_sort_desc sorted_insertion_sort_desc)

text \<open>
  What pandas promises does not fix the order of rows with equal scores: both sorts
  below keep the promise, and they rank the two Lahore roads of score 0.5 (rows 3 and 4)
  in different orders.
\<close>

lemma sort_values_ties_open:
  "sort_values_desc insertion_sort_desc \<and> sort_values_desc (insertion_sort_desc \<circ> rev) \<and>
   map idx (top_n insertion_sort_desc lahore_data) = [0, 3, 4, 1] \<and>
   map idx (top_n (insertion_sort_desc \<circ> rev) lahore_data) = [0, 4, 3, 1]"
proof -
  have "map idx (top_n insertion_sort_desc lahore_data) = [0, 3, 4, 1]"
    by code_simp
  moreover have "map idx (top_n (insertion_sort_desc \<circ> rev) lahore_data) = [0, 4, 3, 1]"
    by code_simp
  ultimately show ?thesis
    using insertion_sort_desc_ok sorted_after_rev by simp
qed


lemma top_n_split: "srt cd = top_n srt cd @ drop 10 (srt cd)"
  by (simp add: top_n_def)

lemma top_n_rest:
  assumes "sort_values_desc srt"
  shows "mset cd - mset (top_n srt cd) = mset (drop 10 (srt cd))"
proof -
  have "mset cd = mset (srt cd)"
    using assms by (simp add: sort_values_desc_def)
  also have "\<dots> = mset (top_n srt cd) + mset (drop 10 (srt cd))"
    by (metis top_n_split mset_append)
  finally show ?thesis by simp
qed

lemma top_n_before_rest:
  assumes "sort_values_desc srt" and "a \<in> set (top_n srt cd)" and "b \<in> set (drop 10 (srt cd))"
  shows "desc_before (risk_score a) (risk_score b)"
proof -
  have "sorted_wrt (\<lambda>a b. desc_before (risk_score a) (risk_score b))
          (top_n srt cd @ drop 10 (srt cd))"
    using sort_values_desc_sorted [OF assms(1), of cd] top_n_split [of srt cd] by simp
  with assms(2,3) show ?thesis
    by (simp add: sorted_wrt_append)
qed

text \<open>The float model against Python: \<^verbatim>\<open>f"{0.7345 * 100:.1f}"\<close> is 73.5,
  \<^verbatim>\<open>f"{0.575:.2f}"\<close> is 0.57, \<^verbatim>\<open>f"{0.575 * 100:.1f}"\<close> is 57.5, \<^verbatim>\<open>f"{0.125:.2f}"\<close>
  is 0.12, \<^verbatim>\<open>f"{-0.0:.1f}"\<close> is -0.0, and the double of 0.734 is
  413205265811243 / 562949953421312.\<close>

lemma float_model_checks:
  "format_f 1 (float_mul (Fin (7345 / 10000)) (Fin 100)) = ''73.5''"
  "format_f 2 (Fin (575 / 1000)) = ''0.57''"
  "format_f 1 (float_mul (Fin (575 / 1000)) (Fin 100)) = ''57.5''"
  "format_f 2 (Fin (1 / 8)) = ''0.12''"
  "format_f 1 (float_mul NZero (Fin 100)) = ''-0.0''"
  "to_double (734 / 1000) = Fin (413205265811243 / 562949953421312)"
  by code_simp+


section \<open>The classification\<close>

text \<open>
  C1. For every numeric risk score \<open>s\<close> (a float that is not NaN), \<open>categorize_risk\<close>
  returns High if and only if \<open>s \<ge> 0.6\<close>, Medium if and only if \<open>0.3 \<le> s < 0.6\<close>, and
  Low if and only if \<open>s < 0.3\<close>, the comparisons being Python's.
\<close>

theorem categorize_risk_thresholds:
  assumes "s \<noteq> NaN"
  shows "(categorize_risk s = ''High'' \<longleftrightarrow> float_ge s (Fin (6 / 10))) \<and>
         (categorize_risk s = ''Medium'' \<longleftrightarrow>
            float_ge s (Fin (3 / 10)) \<and> float_lt s (Fin (6 / 10))) \<and>
         (categorize_risk s = ''Low'' \<longleftrightarrow> float_lt s (Fin (3 / 10)))"
  using assms by (cases s) (auto simp: categorize_risk_def)

theorem categorize_risk_thresholds_witness:
  "Fin (1 / 2) \<noteq> NaN \<and>
   (categorize_risk (Fin (1 / 2)) = ''High'' \<longleftrightarrow> float_ge (Fin (1 / 2)) (Fin (6 / 10))) \<and>
   (categorize_risk (Fin (1 / 2)) = ''Medium'' \<longleftrightarrow>
      float_ge (Fin (1 / 2)) (Fin (3 / 10)) \<and> float_lt (Fin (1 / 2)) (Fin (6 / 10))) \<and>
   (categorize_risk (Fin (1 / 2)) = ''Low'' \<longleftrightarrow> float_lt (Fin (1 / 2)) (Fin (3 / 10))) \<and>
   categorize_risk (Fin (1 / 2)) = ''Medium''"
  using categorize_risk_thresholds [of "Fin (1 / 2)"] by simp

text \<open>
  C2, as the program has it. For every row of the file whose \<open>risk_score\<close> is text that
  pandas reads neither as a number nor as a boolean, \<open>load_data\<close> returns a frame and no
  exception, the row is kept at its place with its city and road name, its score is NaN,
  and the classification of NaN, which runs on every row alike, gives Low by the last
  branch.
\<close>

theorem unparseable_score_is_low:
  assumes "i < length rows" and "csv_risk_score (rows ! i) = Text s"
  shows "\<exists>d. load_data (Inr rows) = Inr d \<and> length d = length rows \<and>
           idx (d ! i) = i \<and> city (d ! i) = csv_city (rows ! i) \<and>
           road_name (d ! i) = csv_road_name (rows ! i) \<and>
           risk_score (d ! i) = NaN \<and> categorize_risk NaN = ''Low'' \<and>
           risk_category (d ! i) = ''Low''"
  using assms by (simp add: load_data_Inr load_row_simps categorize_risk_def)

theorem unparseable_score_is_low_witness:
  "(1::nat) < length scenario_rows \<and> csv_risk_score (scenario_rows ! 1) = Text ''abc'' \<and>
   (\<exists>d. load_data (Inr scenario_rows) = Inr d \<and> length d = length scenario_rows \<and>
      idx (d ! 1) = 1 \<and> city (d ! 1) = csv_city (scenario_rows ! 1) \<and>
      road_name (d ! 1) = csv_road_name (scenario_rows ! 1) \<and>
      risk_score (d ! 1) = NaN \<and> categorize_risk NaN = ''Low'' \<and>
      risk_category (d ! 1) = ''Low'')"
proof -
  have a: "(1::nat) < length scenario_rows" by (simp add: scenario_rows_def)
  have b: "csv_risk_score (scenario_rows ! 1) = Text ''abc''" by (simp add: scenario_rows_def)
  from unparseable_score_is_low [OF a b] a b show ?thesis by blast
qed

text \<open>
  C2, as it is worded, speaks of every value that is no number. The words True and False
  are no numbers; in a column that holds nothing else \<^verbatim>\<open>read_csv\<close> reads them as
  booleans, \<^verbatim>\<open>to_numeric\<close> keeps them, and \<^verbatim>\<open>True >= 0.6\<close> holds: the score of the row
  is not NaN and its category is High.
\<close>

theorem unparseable_score_is_low_counterexample:
  "(0::nat) < length bool_rows \<and>
   csv_risk_score (bool_rows ! 0) = Boolean True \<and>
   \<not> reads_as_number (csv_risk_score (bool_rows ! 0)) \<and>
   load_data (Inr bool_rows) = Inr bool_data \<and>
   length bool_data = length bool_rows \<and>
   risk_score (bool_data ! 0) = Fin 1 \<and>
   risk_score (bool_data ! 0) \<noteq> NaN \<and>
   risk_category (bool_data ! 0) = ''High'' \<and>
   risk_category (bool_data ! 0) \<noteq> ''Low''"
  by (simp add: load_data_Inr bool_data_def bool_rows_def load_row_simps categorize_risk_def)


text \<open>
  C8. The classification is total over the loaded frame: \<open>load_data\<close> returns one row
  for each row of the file, also for a row whose score is no number, and the category of
  every row is the value of \<open>categorize_risk\<close> at the row's score, one of the three
  category names.
\<close>

theorem classification_total:
  "\<exists>d. load_data (Inr rows) = Inr d \<and> length d = length rows \<and>
     (\<forall>i<length rows.
        risk_score (d ! i) = to_numeric (csv_risk_score (rows ! i)) \<and>
        risk_category (d ! i) = categorize_risk (risk_score (d ! i)) \<and>
        risk_category (d ! i) \<in> {''High'', ''Medium'', ''Low''})"
  by (simp add: load_data_Inr load_row_simps categorize_risk_cases)

theorem classification_total_witness:
  "\<exists>d. load_data (Inr scenario_rows) = Inr d \<and> length d = length scenario_rows \<and>
     (1::nat) < length scenario_rows \<and>
     risk_score (d ! 1) = to_numeric (csv_risk_score (scenario_rows ! 1)) \<and>
     risk_category (d ! 1) = categorize_risk (risk_score (d ! 1)) \<and>
     risk_category (d ! 1) \<in> {''High'', ''Medium'', ''Low''}"
proof -
  have a: "(1::nat) < length scenario_rows" by (simp add: scenario_rows_def)
  from classification_total [of scenario_rows] a show ?thesis by blast
qed

text \<open>
  C10. Every row that \<open>load_data\<close> produces has as its category exactly one of the
  strings High, Medium and Low; so the lookup of the marker colour never takes its
  default blue for such a row, and the colour and fill colour of the row's marker are
  red, orange or green.
\<close>

theorem category_and_colour:
  assumes "load_data csv = Inr d" and "r \<in> set d"
  shows "risk_category r \<in> {''High'', ''Medium'', ''Low''} \<and>
         marker_colour r \<in> {''red'', ''orange'', ''green''} \<and>
         marker_colour r \<noteq> ''blue'' \<and>
         (\<forall>m. circle_marker r = Inr m \<longrightarrow>
            color m \<in> {''red'', ''orange'', ''green''} \<and>
            fill_color m \<in> {''red'', ''orange'', ''green''})"
proof -
  have cat: "risk_category r \<in> {''High'', ''Medium'', ''Low''}"
    using load_data_category [OF assms] categorize_risk_in [of "risk_score r"] by simp
  then have col: "marker_colour r \<in> {''red'', ''orange'', ''green''}"
    unfolding marker_colour_def by (rule colour_of_category)
  then have "marker_colour r \<noteq> ''blue''" by auto
  moreover have "color m = marker_colour r \<and> fill_color m = marker_colour r"
    if "circle_marker r = Inr m" for m
    using that by (auto simp: circle_marker_def split: sum.splits)
  ultimately show ?thesis using cat col by simp
qed

theorem category_and_colour_witness:
  "load_data (Inr scenario_rows) = Inr scenario_data \<and>
   scenario_data ! 1 \<in> set scenario_data \<and>
   risk_category (scenario_data ! 1) \<in> {''High'', ''Medium'', ''Low''} \<and>
   marker_colour (scenario_data ! 1) \<in> {''red'', ''orange'', ''green''} \<and>
   marker_colour (scenario_data ! 1) \<noteq> ''blue'' \<and>
   (\<exists>m. circle_marker (scenario_data ! 1) = Inr m \<and>
      color m \<in> {''red'', ''orange'', ''green''} \<and>
      fill_color m \<in> {''red'', ''orange'', ''green''})"
proof -
  have a: "scenario_data ! 1 \<in> set scenario_data"
    by (simp add: scenario_data_def scenario_rows_def)
  have "\<exists>m. circle_marker (scenario_data ! 1) = Inr m"
    by (simp add: circle_marker_def validate_location_def scenario_data_def scenario_rows_def
        load_row_simps)
  with category_and_colour [OF scenario_loaded a] scenario_loaded a
  show ?thesis by blast
qed

section \<open>Selection and ranking\<close>

text \<open>
  C7. \<open>filter_by_city\<close> is idempotent: for every frame and every city, selecting the
  city again from the selected rows returns the same rows; and when no row has the city it
  returns the empty frame, a value and no exception.
\<close>

theorem filter_by_city_idempotent:
  "filter_by_city (filter_by_city ds c) c = filter_by_city ds c \<and>
   ((\<forall>r \<in> set ds. city r \<noteq> c) \<longrightarrow> filter_by_city ds c = [])"
  by (simp add: filter_by_city_def)

theorem filter_by_city_idempotent_witness:
  "''Multan'' \<notin> set (map city scenario_data) \<and>
   filter_by_city scenario_data ''Multan'' = [] \<and>
   filter_by_city (filter_by_city scenario_data ''Lahore'') ''Lahore'' =
     filter_by_city scenario_data ''Lahore'' \<and>
   map idx (filter_by_city scenario_data ''Lahore'') = [0, 1, 3, 4]"
proof -
  have a: "\<forall>r \<in> set scenario_data. city r \<noteq> ''Multan''"
    by (simp add: scenario_data_def scenario_rows_def load_row_simps upt_rec)
  have b: "map idx (filter_by_city scenario_data ''Lahore'') = [0, 1, 3, 4]"
    by code_simp
  from a have "''Multan'' \<notin> set (map city scenario_data)"
    by auto
  with filter_by_city_idempotent [of scenario_data "''Multan''"]
    filter_by_city_idempotent [of scenario_data "''Lahore''"] a b
  show ?thesis by blast
qed

text \<open>
  C5. For every city subset, with a sort that does what pandas promises of
  \<^verbatim>\<open>sort_values\<close>, \<open>top_n\<close> returns at most 10 rows, all of them rows of the subset
  (each as often as the subset has it), in descending order of \<open>risk_score\<close> (no row is
  followed by one of a greater score; rows whose score is NaN come last); every row it
  leaves out ranks after every row it returns; and for a subset of \<open>m < 10\<close> rows it
  returns exactly the \<open>m\<close> rows of the subset.
\<close>

theorem top_n_bounded_sorted:
  assumes "sort_values_desc srt"
  shows "length (top_n srt cd) \<le> 10 \<and>
         mset (top_n srt cd) \<subseteq># mset cd \<and>
         sorted_wrt (\<lambda>a b. desc_before (risk_score a) (risk_score b)) (top_n srt cd) \<and>
         sorted_wrt (\<lambda>a b. \<not> float_lt (risk_score a) (risk_score b)) (top_n srt cd) \<and>
         (\<forall>a \<in> set (top_n srt cd). \<forall>b \<in># mset cd - mset (top_n srt cd).
            desc_before (risk_score a) (risk_score b)) \<and>
         (length cd < 10 \<longrightarrow>
            length (top_n srt cd) = length cd \<and> mset (top_n srt cd) = mset cd)"
proof -
  have s: "sorted_wrt (\<lambda>a b. desc_before (risk_score a) (risk_score b)) (top_n srt cd)"
    unfolding top_n_def using assms by (intro sorted_wrt_take sort_values_desc_sorted)
  then have n: "sorted_wrt (\<lambda>a b. \<not> float_lt (risk_score a) (risk_score b)) (top_n srt cd)"
    by (rule sorted_wrt_mono_rel [rotated]) (simp add: desc_before_not_lt)
  have l: "length (top_n srt cd) = min (length cd) 10"
    by (simp add: top_n_def sort_values_desc_length [OF assms])
  have m: "mset cd = mset (top_n srt cd) + mset (drop 10 (srt cd))"
    using assms top_n_split [of srt cd] by (metis sort_values_desc_def mset_append)
  then have sub: "mset (top_n srt cd) \<subseteq># mset cd"
    by simp
  have rest: "\<forall>a \<in> set (top_n srt cd). \<forall>b \<in># mset cd - mset (top_n srt cd).
      desc_before (risk_score a) (risk_score b)"
    using top_n_before_rest [OF assms] by (simp add: top_n_rest [OF assms])
  have "mset (top_n srt cd) = mset cd" if "length cd < 10"
    using that m by (simp add: sort_values_desc_length [OF assms])
  with s n l sub rest show ?thesis by simp
qed

theorem top_n_bounded_sorted_witness:
  "sort_values_desc insertion_sort_desc \<and>
   length (top_n insertion_sort_desc lahore_data) \<le> 10 \<and>
   sorted_wrt (\<lambda>a b. desc_before (risk_score a) (risk_score b))
     (top_n insertion_sort_desc lahore_data) \<and>
   sorted_wrt (\<lambda>a b. \<not> float_lt (risk_score a) (risk_score b))
     (top_n insertion_sort_desc lahore_data) \<and>
   length lahore_data < 10 \<and>
   length (top_n insertion_sort_desc lahore_data) = length lahore_data \<and>
   mset (top_n insertion_sort_desc lahore_data) = mset lahore_data \<and>
   length long_data = 12 \<and>
   map idx (top_n insertion_sort_desc long_data) = [11, 10, 9, 8, 7, 6, 5, 4, 3, 2] \<and>
   mset (top_n insertion_sort_desc long_data) \<subseteq># mset long_data \<and>
   long_data ! 0 \<in># mset long_data - mset (top_n insertion_sort_desc long_data) \<and>
   list_all (\<lambda>a. desc_before (risk_score a) (risk_score (long_data ! 0)))
     (top_n insertion_sort_desc long_data)"
proof -
  have l: "length lahore_data < 10"
    by code_simp
  have n: "length long_data = 12"
    by (simp add: long_data_def)
  have t: "map idx (top_n insertion_sort_desc long_data) = [11, 10, 9, 8, 7, 6, 5, 4, 3, 2]"
    by code_simp
  have d: "drop 10 (insertion_sort_desc long_data) = [long_data ! 1, long_data ! 0]"
    by code_simp
  have r: "long_data ! 0 \<in># mset long_data - mset (top_n insertion_sort_desc long_data)"
    by (simp add: top_n_rest [OF insertion_sort_desc_ok] d)
  from top_n_bounded_sorted [OF insertion_sort_desc_ok, of long_data] r
  have "list_all (\<lambda>a. desc_before (risk_score a) (risk_score (long_data ! 0)))
          (top_n insertion_sort_desc long_data)"
    by (simp add: list_all_iff)
  with top_n_bounded_sorted [OF insertion_sort_desc_ok, of lahore_data]
    top_n_bounded_sorted [OF insertion_sort_desc_ok, of long_data]
    insertion_sort_desc_ok l n t r
  show ?thesis by simp
qed


section \<open>The categories of a city\<close>

text \<open>
  C6. For every city subset of a loaded frame, the three selections by category (High,
  Medium, Low) are pairwise disjoint, their union as a set is the subset, whose rows are
  all different, and each selection keeps its rows in the order they have in the subset.
\<close>

theorem category_rows_partition:
  assumes "load_data csv = Inr d"
  shows "set (category_rows ''High'' (filter_by_city d c)) \<inter>
           set (category_rows ''Medium'' (filter_by_city d c)) = {} \<and>
         set (category_rows ''High'' (filter_by_city d c)) \<inter>
           set (category_rows ''Low'' (filter_by_city d c)) = {} \<and>
         set (category_rows ''Medium'' (filter_by_city d c)) \<inter>
           set (category_rows ''Low'' (filter_by_city d c)) = {} \<and>
         set (category_rows ''High'' (filter_by_city d c)) \<union>
           set (category_rows ''Medium'' (filter_by_city d c)) \<union>
           set (category_rows ''Low'' (filter_by_city d c)) = set (filter_by_city d c) \<and>
         distinct (filter_by_city d c) \<and>
         subseq (category_rows ''High'' (filter_by_city d c)) (filter_by_city d c) \<and>
         subseq (category_rows ''Medium'' (filter_by_city d c)) (filter_by_city d c) \<and>
         subseq (category_rows ''Low'' (filter_by_city d c)) (filter_by_city d c)"
proof -
  have cat: "risk_category r \<in> {''High'', ''Medium'', ''Low''}" if "r \<in> set d" for r
    using load_data_category [OF assms that] categorize_risk_in [of "risk_score r"] by simp
  have "set (category_rows ''High'' (filter_by_city d c)) \<union>
           set (category_rows ''Medium'' (filter_by_city d c)) \<union>
           set (category_rows ''Low'' (filter_by_city d c)) = set (filter_by_city d c)"
    using cat by (auto simp: category_rows_def filter_by_city_def)
  moreover have "distinct (filter_by_city d c)"
    using load_data_distinct [OF assms] by (simp add: filter_by_city_def)
  ultimately show ?thesis
    by (auto simp: category_rows_def)
qed

theorem category_rows_partition_witness:
  "load_data (Inr scenario_rows) = Inr scenario_data \<and>
   set (category_rows ''High'' (filter_by_city scenario_data ''Lahore'')) \<inter>
     set (category_rows ''Medium'' (filter_by_city scenario_data ''Lahore'')) = {} \<and>
   set (category_rows ''High'' (filter_by_city scenario_data ''Lahore'')) \<union>
     set (category_rows ''Medium'' (filter_by_city scenario_data ''Lahore'')) \<union>
     set (category_rows ''Low'' (filter_by_city scenario_data ''Lahore'')) =
     set (filter_by_city scenario_data ''Lahore'') \<and>
   subseq (category_rows ''Medium'' (filter_by_city scenario_data ''Lahore''))
     (filter_by_city scenario_data ''Lahore'') \<and>
   map idx (category_rows ''High'' (filter_by_city scenario_data ''Lahore'')) = [0] \<and>
   map idx (category_rows ''Medium'' (filter_by_city scenario_data ''Lahore'')) = [3, 4] \<and>
   map idx (category_rows ''Low'' (filter_by_city scenario_data ''Lahore'')) = [1]"
proof -
  have h: "map idx (category_rows ''High'' (filter_by_city scenario_data ''Lahore'')) = [0]"
    by code_simp
  have m: "map idx (category_rows ''Medium'' (filter_by_city scenario_data ''Lahore'')) = [3, 4]"
    by code_simp
  have l: "map idx (category_rows ''Low'' (filter_by_city scenario_data ''Lahore'')) = [1]"
    by code_simp
  from category_rows_partition [OF scenario_loaded, of "''Lahore''"] scenario_loaded h m l
  show ?thesis by blast
qed

section \<open>A city without rows\<close>

text \<open>
  C3, as the program has it. For every selected city with no row in the loaded frame,
  and a sort that does what pandas promises, \<open>main\<close> ends without an exception; the map
  is replaced by the notice ``No data available for this city.'' and the chart by the text
  ``Insufficient data to display risk trend.''; the table of the top roads and the table
  of each of the three tabs are put on the page with their column names and no rows.
\<close>

theorem empty_city_views:
  assumes "sort_values_desc srt" and "load_data csv = Inr d" and "filter_by_city d c = []"
  shows "\<exists>e. main srt csv c = Inr e \<and> data e = d \<and> city_data e = [] \<and>
           page e = page (start_env d c) @
             [Info ''No data available for this city.'',
              Subheader ''Top Risky Roads'',
              Table [''Road'', ''Risk (%)'', ''Category''] [],
              Subheader (''High'' @ nb_hyphen @ ''Risk Trend (Last 7 Days)''),
              Write ''Insufficient data to display risk trend.'',
              Subheader ''Roads by Risk Category'',
              Tabs [(''High Risk'', [Write (''High'' @ nb_hyphen @ ''risk roads:''),
                                     Table [''Road'', ''Score''] []]),
                    (''Medium Risk'', [Write (''Medium'' @ nb_hyphen @ ''risk roads:''),
                                       Table [''Road'', ''Score''] []]),
                    (''Low Risk'', [Write (''Low'' @ nb_hyphen @ ''risk roads:''),
                                    Table [''Road'', ''Score''] []])]]"
proof -
  have cd: "city_data (start_env d c) = []"
    using assms(3) by (simp add: start_env_def)
  have m: "map_section (start_env d c) =
      Inr ((start_env d c)\<lparr>page := page (start_env d c) @ [Info ''No data available for this city.'']\<rparr>)"
    by (simp add: map_section_def cd)
  have t: "top_display srt [] = Table [''Road'', ''Risk (%)'', ''Category''] []"
    by (simp add: top_display_def top_n_Nil [OF assms(1)])
  have "data (start_env d c) = d"
    by (simp add: start_env_def)
  then show ?thesis
    by (simp add: main_def assms(2) m table_section_def table_widgets_def chart_section_def
        tabs_section_def tabs_widgets_def cd t category_tab_def score_table_def
        category_rows_def)
qed

theorem empty_city_views_witness:
  "sort_values_desc insertion_sort_desc \<and>
   load_data (Inr scenario_rows) = Inr scenario_data \<and>
   filter_by_city scenario_data ''Multan'' = [] \<and>
   (\<exists>e. main insertion_sort_desc (Inr scenario_rows) ''Multan'' = Inr e \<and>
      data e = scenario_data \<and> city_data e = [] \<and>
      page e = page (start_env scenario_data ''Multan'') @
             [Info ''No data available for this city.'',
              Subheader ''Top Risky Roads'',
              Table [''Road'', ''Risk (%)'', ''Category''] [],
              Subheader (''High'' @ nb_hyphen @ ''Risk Trend (Last 7 Days)''),
              Write ''Insufficient data to display risk trend.'',
              Subheader ''Roads by Risk Category'',
              Tabs [(''High Risk'', [Write (''High'' @ nb_hyphen @ ''risk roads:''),
                                     Table [''Road'', ''Score''] []]),
                    (''Medium Risk'', [Write (''Medium'' @ nb_hyphen @ ''risk roads:''),
                                       Table [''Road'', ''Score''] []]),
                    (''Low Risk'', [Write (''Low'' @ nb_hyphen @ ''risk roads:''),
                                    Table [''Road'', ''Score''] []])]])"
proof -
  have c: "filter_by_city scenario_data ''Multan'' = []"
    by (simp add: filter_by_city_def scenario_data_def scenario_rows_def load_row_simps upt_rec)
  from empty_city_views [OF insertion_sort_desc_ok scenario_loaded c]
    insertion_sort_desc_ok scenario_loaded c
  show ?thesis by blast
qed

text \<open>
  C3, as it is worded, asks a notice of all four views and no empty widget. In a frame
  without any row the selection is empty; the table view is then a heading and a table
  without rows, with no notice, and each tab is its caption and a table without rows.
\<close>

theorem empty_city_views_counterexample:
  "filter_by_city [] ''Lahore'' = [] \<and>
   table_widgets insertion_sort_desc (filter_by_city [] ''Lahore'') =
     [Subheader ''Top Risky Roads'', Table [''Road'', ''Risk (%)'', ''Category''] []] \<and>
   \<not> empty_state_notice (table_widgets insertion_sort_desc (filter_by_city [] ''Lahore'')) \<and>
   snd (category_tab ''High Risk'' ''High'' (''High'' @ nb_hyphen @ ''risk roads:'')
          (filter_by_city [] ''Lahore'')) =
     [Write (''High'' @ nb_hyphen @ ''risk roads:''), Table [''Road'', ''Score''] []] \<and>
   \<not> empty_state_notice
        (snd (category_tab ''High Risk'' ''High'' (''High'' @ nb_hyphen @ ''risk roads:'')
           (filter_by_city [] ''Lahore'')))"
  by (simp add: filter_by_city_def table_widgets_def top_display_def top_n_def
      category_tab_def score_table_def category_rows_def empty_state_notice_def)

section \<open>The displayed percentage\<close>

text \<open>
  C9. For a row of risk score 0.734 the percentage computed for the table is the product
  of the double 0.734 and 100, rounded as binary64 arithmetic rounds it, which is the
  double 73.4; the table shows it, formatted with one decimal and a percent sign, as
  ``73.4%''. The percentage is a column of the copy \<open>top\<close> alone: the table section
  leaves \<open>data\<close> and \<open>city_data\<close> as they were, and at the end of \<open>main\<close> the frame
  \<open>data\<close> is the one \<open>load_data\<close> returned.
\<close>

theorem risk_percentage_display:
  "(risk_score r = Fin (734 / 1000) \<longrightarrow>
      risk_percentage (add_risk_percentage r) = float_mul (Fin (734 / 1000)) (Fin 100) \<and>
      float_mul (Fin (734 / 1000)) (Fin 100) = to_double (734 / 10) \<and>
      top_display_row (add_risk_percentage r) =
        (idx r, [Txt (road_name r), Txt ''73.4%'', Txt (risk_category r)])) \<and>
   data (table_section srt e) = data e \<and>
   city_data (table_section srt e) = city_data e \<and>
   (main srt csv c = Inr e' \<longrightarrow> load_data csv = Inr (data e'))"
proof -
  have f: "format_f 1 (float_mul (Fin (734 / 1000)) (Fin 100)) = ''73.4''"
    by code_simp
  have p: "float_mul (Fin (734 / 1000)) (Fin 100) = to_double (734 / 10)"
    by code_simp
  have row: "top_display_row (add_risk_percentage r) =
      (idx r, [Txt (road_name r), Txt (format_f 1 (float_mul (risk_score r) (Fin 100)) @ ''%''),
               Txt (risk_category r)])"
    by (simp add: add_risk_percentage_def top_display_row_def)
  have "risk_score r = Fin (734 / 1000) \<longrightarrow>
      risk_percentage (add_risk_percentage r) = float_mul (Fin (734 / 1000)) (Fin 100) \<and>
      float_mul (Fin (734 / 1000)) (Fin 100) = to_double (734 / 10) \<and>
      top_display_row (add_risk_percentage r) =
        (idx r, [Txt (road_name r), Txt ''73.4%'', Txt (risk_category r)])"
  proof
    assume rs: "risk_score r = Fin (734 / 1000)"
    have "risk_percentage (add_risk_percentage r) = float_mul (Fin (734 / 1000)) (Fin 100)"
      by (simp only: add_risk_percentage_def rs top_row.simps)
    moreover have "top_display_row (add_risk_percentage r) =
        (idx r, [Txt (road_name r), Txt (''73.4'' @ ''%''), Txt (risk_category r)])"
      by (simp only: row rs f)
    ultimately show "risk_percentage (add_risk_percentage r) =
        float_mul (Fin (734 / 1000)) (Fin 100) \<and>
      float_mul (Fin (734 / 1000)) (Fin 100) = to_double (734 / 10) \<and>
      top_display_row (add_risk_percentage r) =
        (idx r, [Txt (road_name r), Txt ''73.4%'', Txt (risk_category r)])"
      using p by (simp only: append.simps simp_thms)
  qed
  moreover have "load_data csv = Inr (data e')" if "main srt csv c = Inr e'"
    using that
    by (auto simp: main_def map_section_def chart_section_def table_section_def tabs_section_def
        start_env_def split: sum.splits if_splits)
  ultimately show ?thesis
    by (simp add: table_section_def)
qed

theorem risk_percentage_display_witness:
  "risk_score (scenario_data ! 2) = Fin (734 / 1000) \<and>
   risk_percentage (add_risk_percentage (scenario_data ! 2)) =
     float_mul (Fin (734 / 1000)) (Fin 100) \<and>
   float_mul (Fin (734 / 1000)) (Fin 100) = Fin (2582532911320269 / 35184372088832) \<and>
   top_display_row (add_risk_percentage (scenario_data ! 2)) =
     (2, [Txt ''Shahrah-e-Faisal'', Txt ''73.4%'', Txt ''High'']) \<and>
   top_display insertion_sort_desc (filter_by_city scenario_data ''Karachi'') =
     Table [''Road'', ''Risk (%)'', ''Category'']
       [(2, [Txt ''Shahrah-e-Faisal'', Txt ''73.4%'', Txt ''High''])] \<and>
   (\<exists>e'. main insertion_sort_desc (Inr scenario_rows) ''Karachi'' = Inr e' \<and>
      load_data (Inr scenario_rows) = Inr (data e') \<and> data e' = scenario_data)"
proof -
  have a: "risk_score (scenario_data ! 2) = Fin (734 / 1000)"
    by (simp add: scenario_data_def scenario_rows_def load_row_simps)
  have b: "idx (scenario_data ! 2) = 2 \<and> road_name (scenario_data ! 2) = ''Shahrah-e-Faisal'' \<and>
           risk_category (scenario_data ! 2) = ''High''"
    by (simp add: scenario_data_def scenario_rows_def load_row_simps categorize_risk_def)
  have v: "float_mul (Fin (734 / 1000)) (Fin 100) = Fin (2582532911320269 / 35184372088832)"
    by code_simp
  have t: "top_display insertion_sort_desc (filter_by_city scenario_data ''Karachi'') =
       Table [''Road'', ''Risk (%)'', ''Category'']
         [(2, [Txt ''Shahrah-e-Faisal'', Txt ''73.4%'', Txt ''High''])]"
    by code_simp
  have "\<not> isl (main insertion_sort_desc (Inr scenario_rows) ''Karachi'')"
    by code_simp
  then obtain e' where m: "main insertion_sort_desc (Inr scenario_rows) ''Karachi'' = Inr e'"
    by (cases "main insertion_sort_desc (Inr scenario_rows) ''Karachi''") auto
  from risk_percentage_display [of "scenario_data ! 2" insertion_sort_desc e' "Inr scenario_rows"
      "''Karachi''" e'] a m
  have "risk_percentage (add_risk_percentage (scenario_data ! 2)) =
          float_mul (Fin (734 / 1000)) (Fin 100) \<and>
        top_display_row (add_risk_percentage (scenario_data ! 2)) =
          (idx (scenario_data ! 2),
           [Txt (road_name (scenario_data ! 2)), Txt ''73.4%'',
            Txt (risk_category (scenario_data ! 2))]) \<and>
        load_data (Inr scenario_rows) = Inr (data e')"
    by blast
  with a b v t m scenario_loaded show ?thesis by auto
qed

end
